theory Spec2Isabelle
  imports Complex_Main "HOL-Library.Multiset"
begin

section \<open>JavaScript numbers\<close>

text \<open>
  The component computes with JavaScript numbers. A number is modelled as a finite real,
  one of the two infinities, or NaN. The operations follow IEEE 754 on the special
  values: a division by zero gives an infinity or NaN, NaN is absorbing, every
  comparison with NaN is false. Rounding, overflow of finite results and the sign of zero
  are not modelled: a finite result is the exact real.
\<close>

datatype jsnum = Fin real | PInf | NInf | NaN

fun inf_of_sign :: "bool \<Rightarrow> jsnum" where
  "inf_of_sign True = NInf"
| "inf_of_sign False = PInf"

instantiation jsnum :: "{uminus, plus, minus, times, inverse, abs, ord}"
begin

fun uminus_jsnum :: "jsnum \<Rightarrow> jsnum" where
  "uminus_jsnum (Fin a) = Fin (- a)"
| "uminus_jsnum PInf = NInf"
| "uminus_jsnum NInf = PInf"
| "uminus_jsnum NaN = NaN"

fun plus_jsnum :: "jsnum \<Rightarrow> jsnum \<Rightarrow> jsnum" where
  "plus_jsnum NaN b = NaN"
| "plus_jsnum a NaN = NaN"
| "plus_jsnum PInf NInf = NaN"
| "plus_jsnum NInf PInf = NaN"
| "plus_jsnum PInf b = PInf"
| "plus_jsnum a PInf = PInf"
| "plus_jsnum NInf b = NInf"
| "plus_jsnum a NInf = NInf"
| "plus_jsnum (Fin a) (Fin b) = Fin (a + b)"

definition minus_jsnum :: "jsnum \<Rightarrow> jsnum \<Rightarrow> jsnum" where
  "minus_jsnum a b = a + (- b)"

fun times_jsnum :: "jsnum \<Rightarrow> jsnum \<Rightarrow> jsnum" where
  "times_jsnum NaN b = NaN"
| "times_jsnum a NaN = NaN"
| "times_jsnum (Fin a) (Fin b) = Fin (a * b)"
| "times_jsnum (Fin a) PInf = (if a = 0 then NaN else inf_of_sign (a < 0))"
| "times_jsnum (Fin a) NInf = (if a = 0 then NaN else inf_of_sign (0 < a))"
| "times_jsnum PInf (Fin b) = (if b = 0 then NaN else inf_of_sign (b < 0))"
| "times_jsnum NInf (Fin b) = (if b = 0 then NaN else inf_of_sign (0 < b))"
| "times_jsnum PInf PInf = PInf"
| "times_jsnum PInf NInf = NInf"
| "times_jsnum NInf PInf = NInf"
| "times_jsnum NInf NInf = PInf"

fun divide_jsnum :: "jsnum \<Rightarrow> jsnum \<Rightarrow> jsnum" where
  "divide_jsnum NaN b = NaN"
| "divide_jsnum a NaN = NaN"
| "divide_jsnum (Fin a) (Fin b) =
     (if b \<noteq> 0 then Fin (a / b)
      else if a = 0 then NaN
      else inf_of_sign (a < 0))"
| "divide_jsnum (Fin a) b = Fin 0"
| "divide_jsnum PInf (Fin b) = inf_of_sign (b < 0)"
| "divide_jsnum NInf (Fin b) = inf_of_sign (0 \<le> b)"
| "divide_jsnum a b = NaN"

definition inverse_jsnum :: "jsnum \<Rightarrow> jsnum" where
  "inverse_jsnum a = divide (Fin 1) a"

fun abs_jsnum :: "jsnum \<Rightarrow> jsnum" where
  "abs_jsnum (Fin a) = Fin \<bar>a\<bar>"
| "abs_jsnum PInf = PInf"
| "abs_jsnum NInf = PInf"
| "abs_jsnum NaN = NaN"

fun less_jsnum :: "jsnum \<Rightarrow> jsnum \<Rightarrow> bool" where
  "less_jsnum NaN b = False"
| "less_jsnum a NaN = False"
| "less_jsnum (Fin a) (Fin b) = (a < b)"
| "less_jsnum a NInf = False"
| "less_jsnum PInf b = False"
| "less_jsnum a b = True"

fun less_eq_jsnum :: "jsnum \<Rightarrow> jsnum \<Rightarrow> bool" where
  "less_eq_jsnum NaN b = False"
| "less_eq_jsnum a NaN = False"
| "less_eq_jsnum (Fin a) (Fin b) = (a \<le> b)"
| "less_eq_jsnum NInf b = True"
| "less_eq_jsnum a PInf = True"
| "less_eq_jsnum a b = False"

instance ..

end

text \<open>\<^verbatim>\<open>a % b\<close>: the remainder has the sign of the dividend (the quotient is truncated).\<close>

definition trunc :: "real \<Rightarrow> int" where
  "trunc r = (if 0 \<le> r then \<lfloor>r\<rfloor> else \<lceil>r\<rceil>)"

fun js_rem :: "jsnum \<Rightarrow> jsnum \<Rightarrow> jsnum" where
  "js_rem (Fin a) (Fin b) = (if b = 0 then NaN else Fin (a - b * of_int (trunc (a / b))))"
| "js_rem (Fin a) PInf = Fin a"
| "js_rem (Fin a) NInf = Fin a"
| "js_rem a b = NaN"

text \<open>\<^verbatim>\<open>Math.pow(b, n)\<close> for the literal, natural exponents the component uses.\<close>

fun Math_pow :: "jsnum \<Rightarrow> nat \<Rightarrow> jsnum" where
  "Math_pow (Fin a) n = Fin (a ^ n)"
| "Math_pow PInf n = (if n = 0 then Fin 1 else PInf)"
| "Math_pow NInf n = (if n = 0 then Fin 1 else if even n then PInf else NInf)"
| "Math_pow NaN n = (if n = 0 then Fin 1 else NaN)"



definition Math_PI :: jsnum where
  "Math_PI = Fin pi"

text \<open>\<^verbatim>\<open>Math.atan2(y, x)\<close>: the angle of the point \<open>(x, y)\<close>, in \<open>(-\<pi>, \<pi>]\<close>.\<close>

fun Math_atan2 :: "jsnum \<Rightarrow> jsnum \<Rightarrow> jsnum" where
  "Math_atan2 NaN x = NaN"
| "Math_atan2 y NaN = NaN"
| "Math_atan2 (Fin y) (Fin x) =
     Fin (if 0 < x then arctan (y / x)
          else if x < 0 then (if 0 \<le> y then arctan (y / x) + pi else arctan (y / x) - pi)
          else if 0 < y then pi / 2
          else if y < 0 then - (pi / 2)
          else 0)"
| "Math_atan2 (Fin y) PInf = Fin 0"
| "Math_atan2 (Fin y) NInf = Fin (if 0 \<le> y then pi else - pi)"
| "Math_atan2 PInf (Fin x) = Fin (pi / 2)"
| "Math_atan2 NInf (Fin x) = Fin (- (pi / 2))"
| "Math_atan2 PInf PInf = Fin (pi / 4)"
| "Math_atan2 PInf NInf = Fin (3 * pi / 4)"
| "Math_atan2 NInf PInf = Fin (- (pi / 4))"
| "Math_atan2 NInf NInf = Fin (- (3 * pi / 4))"

section \<open>Points and the snapping of a line's end point\<close>

type_synonym point = "jsnum \<times> jsnum"

definition HORIZONTAL_SNAP_THRESHOLD :: jsnum where
  "HORIZONTAL_SNAP_THRESHOLD = Fin 5"

definition VERTICAL_SNAP_THRESHOLD :: jsnum where
  "VERTICAL_SNAP_THRESHOLD = Fin 2"

definition HORIZONTAL_SNAP_DISTANCE_THRESHOLD :: jsnum where
  "HORIZONTAL_SNAP_DISTANCE_THRESHOLD = Fin (2 / 100)"

definition VERTICAL_SNAP_DISTANCE_THRESHOLD :: jsnum where
  "VERTICAL_SNAP_DISTANCE_THRESHOLD = Fin (2 / 100)"

definition getSnappedEndPoint :: "point \<Rightarrow> point \<Rightarrow> point" where
  "getSnappedEndPoint start end' =
     (let dx = fst end' - fst start;
          dy = snd end' - snd start;
          angle = js_rem (Math_atan2 dy dx * Fin 180 / Math_PI + Fin 360) (Fin 360)
      in if (angle < HORIZONTAL_SNAP_THRESHOLD \<or> abs (angle - Fin 180) < HORIZONTAL_SNAP_THRESHOLD)
            \<and> abs dy < HORIZONTAL_SNAP_DISTANCE_THRESHOLD
         then (fst end', snd start)
         else if (abs (angle - Fin 90) < VERTICAL_SNAP_THRESHOLD
                  \<or> abs (angle - Fin 270) < VERTICAL_SNAP_THRESHOLD)
                 \<and> abs dx < VERTICAL_SNAP_DISTANCE_THRESHOLD
         then (fst start, snd end')
         else end')"


section \<open>The data of the drawing component\<close>

text \<open>
  An \<open>ImageElement\<close> is a JavaScript object: the list of images, the selection and the
  recorded actions all hold references to it, and it is mutated in place. The model keeps
  the objects in an explicit store \<open>heap\<close>, from references to field values; creating an
  object takes the next unused reference \<open>nextRef\<close>. A reference of the component always
  points to an object; the model leaves the state as it is where a lookup finds none.
\<close>

type_synonym ref = nat

record HTMLImageElement =
  el_id :: nat
  el_width :: nat
  el_height :: nat

record ImageElement =
  i_img :: HTMLImageElement
  i_x :: jsnum
  i_y :: jsnum
  i_width :: jsnum
  i_height :: jsnum
  i_rotation :: jsnum

text \<open>\<open>Partial<ImageElement>\<close>: every field may be absent.\<close>

record PartialImageElement =
  p_img :: "HTMLImageElement option"
  p_x :: "jsnum option"
  p_y :: "jsnum option"
  p_width :: "jsnum option"
  p_height :: "jsnum option"
  p_rotation :: "jsnum option"

definition no_fields :: PartialImageElement where
  "no_fields = \<lparr>p_img = None, p_x = None, p_y = None, p_width = None, p_height = None,
     p_rotation = None\<rparr>"

datatype action_type =
  TPath | TImage | TDeleteImage | TAddImage | TMoveImage | TResizeImage | TRotateImage

record DrawAction =
  a_type :: action_type
  a_path :: "point list option"
  a_color :: "string option"
  a_lineWidth :: "jsnum option"
  a_isEraser :: "bool option"
  a_image :: "ref option"
  a_oldState :: "PartialImageElement option"
  a_newState :: "PartialImageElement option"

text \<open>An action object literal that sets only \<open>type\<close>; the other fields are set by update.\<close>

definition action_of_type :: "action_type \<Rightarrow> DrawAction" where
  "action_of_type t = \<lparr>a_type = t, a_path = None, a_color = None, a_lineWidth = None,
     a_isEraser = None, a_image = None, a_oldState = None, a_newState = None\<rparr>"

record component =
  heap :: "ref \<rightharpoonup> ImageElement"
  nextRef :: ref
  isDrawing :: bool
  actions :: "DrawAction list"
  redoActions :: "DrawAction list"
  currentPath :: "point list"
  currentColor :: string
  isEraser :: bool
  brushSize :: jsnum
  backgroundColor :: string
  isShiftPressed :: bool
  lineStartPoint :: "point option"
  linePreview :: "(point \<times> point) option"
  isLineDrawingMode :: bool
  images :: "ref list"
  selectedImage :: "ref option"
  isDraggingImage :: bool
  isResizingImage :: bool
  isRotatingImage :: bool
  dragStartX :: jsnum
  dragStartY :: jsnum

text \<open>The field initialisers of the class.\<close>

definition initial :: component where
  "initial = \<lparr>heap = Map.empty, nextRef = 0, isDrawing = False, actions = [], redoActions = [],
     currentPath = [], currentColor = ''#000000'', isEraser = False, brushSize = Fin 2,
     backgroundColor = ''#FFFFFF'', isShiftPressed = False, lineStartPoint = None,
     linePreview = None, isLineDrawingMode = False, images = [], selectedImage = None,
     isDraggingImage = False, isResizingImage = False, isRotatingImage = False,
     dragStartX = Fin 0, dragStartY = Fin 0\<rparr>"

text \<open>
  The canvas element, with its integer \<open>width\<close> and \<open>height\<close> attributes, and the rectangle
  that \<open>getBoundingClientRect\<close> returns are given by the browser. \<open>redrawCanvas\<close> only
  paints: it changes no field of the component and is left out.
\<close>

record canvas =
  c_width :: nat
  c_height :: nat

definition canvas_width :: "canvas \<Rightarrow> jsnum" where
  "canvas_width cv = Fin (real (c_width cv))"

definition canvas_height :: "canvas \<Rightarrow> jsnum" where
  "canvas_height cv = Fin (real (c_height cv))"

record DOMRect =
  r_left :: real
  r_top :: real
  r_width :: real
  r_height :: real

section \<open>Arrays\<close>

text \<open>\<open>indexOf\<close> gives the first index of a value, or \<open>-1\<close>; \<open>splice(i, 1)\<close> removes one element.\<close>

fun indexOf :: "'a list \<Rightarrow> 'a \<Rightarrow> int" where
  "indexOf [] v = - 1"
| "indexOf (a # as) v =
     (if a = v then 0 else (let i = indexOf as v in if i = - 1 then - 1 else i + 1))"

definition splice1 :: "'a list \<Rightarrow> int \<Rightarrow> 'a list" where
  "splice1 xs i = take (nat i) xs @ drop (nat i + 1) xs"

text \<open>\<open>Object.assign(target, source)\<close> copies the fields that the source has.\<close>

definition Object_assign :: "ImageElement \<Rightarrow> PartialImageElement \<Rightarrow> ImageElement" where
  "Object_assign target source =
     \<lparr>i_img = (case p_img source of None \<Rightarrow> i_img target | Some v \<Rightarrow> v),
      i_x = (case p_x source of None \<Rightarrow> i_x target | Some v \<Rightarrow> v),
      i_y = (case p_y source of None \<Rightarrow> i_y target | Some v \<Rightarrow> v),
      i_width = (case p_width source of None \<Rightarrow> i_width target | Some v \<Rightarrow> v),
      i_height = (case p_height source of None \<Rightarrow> i_height target | Some v \<Rightarrow> v),
      i_rotation = (case p_rotation source of None \<Rightarrow> i_rotation target | Some v \<Rightarrow> v)\<rparr>"

definition assign_at :: "ref \<Rightarrow> PartialImageElement \<Rightarrow> component \<Rightarrow> component" where
  "assign_at r source s =
     (case heap s r of
        None \<Rightarrow> s
      | Some target \<Rightarrow> s\<lparr>heap := (heap s)(r \<mapsto> Object_assign target source)\<rparr>)"

section \<open>Images: upload, deletion\<close>

text \<open>
  \<open>handleImageUpload\<close>: the function starts the decoding of the file; what is modelled is
  its \<open>img.onload\<close> callback, which runs once the image \<open>img\<close> is decoded.
\<close>

definition handleImageUpload :: "HTMLImageElement \<Rightarrow> component \<Rightarrow> component" where
  "handleImageUpload img s =
     (let imageElement = \<lparr>i_img = img, i_x = Fin 0, i_y = Fin 0,
            i_width = Fin (real (el_width img)), i_height = Fin (real (el_height img)),
            i_rotation = Fin 0\<rparr>;
          r = nextRef s
      in s\<lparr>heap := (heap s)(r \<mapsto> imageElement), nextRef := Suc r, images := images s @ [r]\<rparr>)"

definition deleteImage :: "ref \<Rightarrow> component \<Rightarrow> component" where
  "deleteImage image' s =
     (let index = indexOf (images s) image'
      in if index > - 1
         then s\<lparr>images := splice1 (images s) index,
                actions := actions s @ [(action_of_type TDeleteImage)\<lparr>a_image := Some image'\<rparr>],
                redoActions := [],
                selectedImage := None\<rparr>
         else s)"

section \<open>Pointer coordinates and the current path\<close>

text \<open>
  The pointer position and the rectangle are finite numbers given by the browser; the
  quotient is a JavaScript division, which a zero width or height takes out of the finite
  numbers. \<open>capturePoint\<close> returns at once when the component has no canvas yet: the
  rectangle is then \<open>None\<close>.
\<close>

definition getCanvasCoordinates :: "DOMRect \<Rightarrow> real \<Rightarrow> real \<Rightarrow> point" where
  "getCanvasCoordinates rect clientX clientY =
     ((Fin clientX - Fin (r_left rect)) / Fin (r_width rect),
      (Fin clientY - Fin (r_top rect)) / Fin (r_height rect))"

definition capturePoint :: "DOMRect option \<Rightarrow> real \<Rightarrow> real \<Rightarrow> component \<Rightarrow> component" where
  "capturePoint canvasRef clientX clientY s =
     (case canvasRef of
        None \<Rightarrow> s
      | Some rect \<Rightarrow>
          (let x = (Fin clientX - Fin (r_left rect)) / Fin (r_width rect);
               y = (Fin clientY - Fin (r_top rect)) / Fin (r_height rect)
           in s\<lparr>currentPath := currentPath s @ [(x, y)]\<rparr>))"

section \<open>Smoothing a path\<close>

text \<open>
  The inner loop \<^verbatim>\<open>for (let t = 0; t <= 1; t += 0.1)\<close> pushes one sample of the quadratic
  curve per turn; the counter starts at zero and stays finite.
\<close>

function bezierSamples :: "real \<Rightarrow> point \<Rightarrow> point \<Rightarrow> point \<Rightarrow> point list \<Rightarrow> point list" where
  "bezierSamples t ctrl1 p1 ctrl2 smoothPath =
     (if t \<le> 1
      then (let x = Math_pow (Fin 1 - Fin t) 2 * fst ctrl1 + Fin 2 * (Fin 1 - Fin t) * Fin t * fst p1
                    + Math_pow (Fin t) 2 * fst ctrl2;
                y = Math_pow (Fin 1 - Fin t) 2 * snd ctrl1 + Fin 2 * (Fin 1 - Fin t) * Fin t * snd p1
                    + Math_pow (Fin t) 2 * snd ctrl2
            in bezierSamples (t + 1 / 10) ctrl1 p1 ctrl2 (smoothPath @ [(x, y)]))
      else smoothPath)"
  by pat_completeness auto
termination
proof (relation "measure (\<lambda>(t, ctrl1, p1, ctrl2, smoothPath). nat (\<lfloor>(1 - t) * 10\<rfloor> + 1))")
  show "wf (measure (\<lambda>(t, ctrl1, p1, ctrl2, smoothPath). nat (\<lfloor>(1 - t) * 10\<rfloor> + 1)))"
    by simp
next
  fix t :: real and ctrl1 p1 ctrl2 :: point and smoothPath :: "point list" and x xa :: jsnum
  assume t: "t \<le> 1"
  have e: "(1 - (t + 1 / 10)) * 10 = (1 - t) * 10 - 1"
    by (simp add: algebra_simps)
  have f: "\<lfloor>(1 - (t + 1 / 10)) * 10\<rfloor> = \<lfloor>(1 - t) * 10\<rfloor> - 1"
    by (simp only: e floor_diff_one)
  have g: "0 \<le> \<lfloor>(1 - t) * 10\<rfloor>"
    using t by simp
  have "nat (\<lfloor>(1 - (t + 1 / 10)) * 10\<rfloor> + 1) < nat (\<lfloor>(1 - t) * 10\<rfloor> + 1)"
    unfolding f using g by linarith
  then show "((t + 1 / 10, ctrl1, p1, ctrl2, smoothPath @ [(x, xa)]), (t, ctrl1, p1, ctrl2, smoothPath))
      \<in> measure (\<lambda>(t, ctrl1, p1, ctrl2, smoothPath). nat (\<lfloor>(1 - t) * 10\<rfloor> + 1))"
    by (simp only: in_measure prod.case)
qed

text \<open>
  The outer loop \<^verbatim>\<open>for (let i = 1; i < points.length - 1; i++)\<close>. It runs only on three
  points or more, from \<open>i = 1\<close>, so that the three reads are in range.
\<close>

function smoothLoop :: "nat \<Rightarrow> point list \<Rightarrow> point list \<Rightarrow> point list" where
  "smoothLoop i points smoothPath =
     (if i < length points - 1
      then (let p0 = points ! (i - 1);
                p1 = points ! i;
                p2 = points ! (i + 1);
                ctrl1 = (fst p0 + (fst p1 - fst p0) / Fin 2, snd p0 + (snd p1 - snd p0) / Fin 2);
                ctrl2 = (fst p1 + (fst p2 - fst p1) / Fin 2, snd p1 + (snd p2 - snd p1) / Fin 2)
            in smoothLoop (i + 1) points (bezierSamples 0 ctrl1 p1 ctrl2 smoothPath))
      else smoothPath)"
  by pat_completeness auto
termination
  by (relation "measure (\<lambda>(i, points, smoothPath). length points - 1 - i)") auto

definition createSmoothPath :: "point list \<Rightarrow> point list" where
  "createSmoothPath points =
     (if length points < 3 then points
      else smoothLoop 1 points [points ! 0] @ [points ! (length points - 1)])"

text \<open>
  The parts of the result, for stating what the loops compute: the control point midway
  between two points, the point of the curve at the parameter \<open>t\<close>, and the eleven samples
  that the inner loop pushes for the interior point of index \<open>i\<close>.
\<close>

definition ctrlPoint :: "point \<Rightarrow> point \<Rightarrow> point" where
  "ctrlPoint p q = (fst p + (fst q - fst p) / Fin 2, snd p + (snd q - snd p) / Fin 2)"

definition bezierPoint :: "point \<Rightarrow> point \<Rightarrow> point \<Rightarrow> real \<Rightarrow> point" where
  "bezierPoint ctrl1 p1 ctrl2 t =
     (Math_pow (Fin 1 - Fin t) 2 * fst ctrl1 + Fin 2 * (Fin 1 - Fin t) * Fin t * fst p1
        + Math_pow (Fin t) 2 * fst ctrl2,
      Math_pow (Fin 1 - Fin t) 2 * snd ctrl1 + Fin 2 * (Fin 1 - Fin t) * Fin t * snd p1
        + Math_pow (Fin t) 2 * snd ctrl2)"

definition segmentSamples :: "point list \<Rightarrow> nat \<Rightarrow> point list" where
  "segmentSamples ps i =
     map (\<lambda>j. bezierPoint (ctrlPoint (ps ! (i - 1)) (ps ! i)) (ps ! i) (ctrlPoint (ps ! i) (ps ! (i + 1)))
                 (real j / 10)) [0..<11]"

text \<open>
  The counter of the inner loop under the rounding of binary64, to compare with the exact
  counter above. A value \<open>v\<close> of the counter is held as the natural number \<open>v * 2 ^ 60\<close>;
  \<open>round53\<close> rounds to 53 significant bits, to the nearest, ties to even, as the addition of
  two doubles does; \<open>tenth64\<close> is the double nearest to 0.1; \<open>turns64\<close> lists the values
  of the counter at which the body of the loop runs.
\<close>

fun bits :: "nat \<Rightarrow> nat" where
  "bits n = (if n = 0 then 0 else Suc (bits (n div 2)))"

definition round53 :: "nat \<Rightarrow> nat" where
  "round53 n =
     (let sh = bits n - 53
      in if sh = 0 then n
         else (let q = n div 2 ^ sh; r = n mod 2 ^ sh; h = 2 ^ (sh - 1)
               in (if h < r \<or> (r = h \<and> odd q) then q + 1 else q) * 2 ^ sh))"

definition tenth64 :: nat where
  "tenth64 = 115292150460684704"

fun turns64 :: "nat \<Rightarrow> nat \<Rightarrow> nat list" where
  "turns64 0 c = []"
| "turns64 (Suc fuel) c = (if c \<le> 2 ^ 60 then c # turns64 fuel (round53 (c + tenth64)) else [])"

section \<open>Strokes\<close>

definition stopDrawing :: "component \<Rightarrow> component" where
  "stopDrawing s =
     (if isDrawing s
      then (let s1 = s\<lparr>isDrawing := False\<rparr>;
                s2 = (if length (currentPath s1) > 1
                      then (let smoothPath = createSmoothPath (currentPath s1)
                            in s1\<lparr>actions := actions s1 @
                                    [(action_of_type TPath)\<lparr>
                                       a_path := Some smoothPath,
                                       a_color := Some (if isEraser s1 then backgroundColor s1
                                                        else currentColor s1),
                                       a_lineWidth := Some (brushSize s1),
                                       a_isEraser := Some (isEraser s1)\<rparr>],
                                  redoActions := []\<rparr>)
                      else s1)
            in s2\<lparr>currentPath := []\<rparr>)
      else s)"

definition onMouseUp :: "DOMRect \<Rightarrow> real \<Rightarrow> real \<Rightarrow> component \<Rightarrow> component" where
  "onMouseUp rect clientX clientY s =
     (let s1 = s\<lparr>isDraggingImage := False, isResizingImage := False, isRotatingImage := False\<rparr>
      in case (if isLineDrawingMode s1 then lineStartPoint s1 else None) of
           Some start \<Rightarrow>
             (let xy = getCanvasCoordinates rect clientX clientY;
                  snappedEnd = getSnappedEndPoint start xy
              in s1\<lparr>actions := actions s1 @
                       [(action_of_type TPath)\<lparr>
                          a_path := Some [start, snappedEnd],
                          a_color := Some (currentColor s1),
                          a_lineWidth := Some (brushSize s1),
                          a_isEraser := Some False\<rparr>],
                     lineStartPoint := None,
                     linePreview := None,
                     isLineDrawingMode := False\<rparr>)
         | None \<Rightarrow> stopDrawing s1)"

section \<open>Undo, redo, clearing\<close>

definition undo :: "component \<Rightarrow> component" where
  "undo s =
     (if length (actions s) > 0
      then (let action = last (actions s);
                s1 = s\<lparr>actions := butlast (actions s)\<rparr>;
                s2 = s1\<lparr>redoActions := redoActions s1 @ [action]\<rparr>
            in case a_type action of
                 TPath \<Rightarrow> s2
               | TAddImage \<Rightarrow>
                   (case a_image action of
                      None \<Rightarrow> s2
                    | Some image' \<Rightarrow>
                        (let index = indexOf (images s2) image'
                         in if index > - 1 then s2\<lparr>images := splice1 (images s2) index\<rparr> else s2))
               | TDeleteImage \<Rightarrow>
                   (case a_image action of
                      None \<Rightarrow> s2
                    | Some image' \<Rightarrow> s2\<lparr>images := images s2 @ [image']\<rparr>)
               | TMoveImage \<Rightarrow>
                   (case (a_image action, a_oldState action) of
                      (Some image', Some oldState) \<Rightarrow> assign_at image' oldState s2
                    | _ \<Rightarrow> s2)
               | TResizeImage \<Rightarrow>
                   (case (a_image action, a_oldState action) of
                      (Some image', Some oldState) \<Rightarrow> assign_at image' oldState s2
                    | _ \<Rightarrow> s2)
               | TRotateImage \<Rightarrow>
                   (case (a_image action, a_oldState action) of
                      (Some image', Some oldState) \<Rightarrow> assign_at image' oldState s2
                    | _ \<Rightarrow> s2)
               | TImage \<Rightarrow> s2)
      else s)"

definition redo :: "component \<Rightarrow> component" where
  "redo s =
     (if length (redoActions s) > 0
      then (let action = last (redoActions s);
                s1 = s\<lparr>redoActions := butlast (redoActions s)\<rparr>;
                s2 = s1\<lparr>actions := actions s1 @ [action]\<rparr>
            in case a_type action of
                 TPath \<Rightarrow> s2
               | TAddImage \<Rightarrow>
                   (case a_image action of
                      None \<Rightarrow> s2
                    | Some image' \<Rightarrow> s2\<lparr>images := images s2 @ [image']\<rparr>)
               | TDeleteImage \<Rightarrow>
                   (case a_image action of
                      None \<Rightarrow> s2
                    | Some image' \<Rightarrow>
                        (let index = indexOf (images s2) image'
                         in if index > - 1 then s2\<lparr>images := splice1 (images s2) index\<rparr> else s2))
               | TMoveImage \<Rightarrow>
                   (case (a_image action, a_newState action) of
                      (Some image', Some newState) \<Rightarrow> assign_at image' newState s2
                    | _ \<Rightarrow> s2)
               | TResizeImage \<Rightarrow>
                   (case (a_image action, a_newState action) of
                      (Some image', Some newState) \<Rightarrow> assign_at image' newState s2
                    | _ \<Rightarrow> s2)
               | TRotateImage \<Rightarrow>
                   (case (a_image action, a_newState action) of
                      (Some image', Some newState) \<Rightarrow> assign_at image' newState s2
                    | _ \<Rightarrow> s2)
               | TImage \<Rightarrow> s2)
      else s)"

text \<open>
  \<open>clearCanvas\<close>: the \<open>forEach\<close> pushes one action per image, then the four assignments
  follow in the order of the source.
\<close>

definition clearCanvas :: "component \<Rightarrow> component" where
  "clearCanvas s =
     (let s1 = foldl (\<lambda>st image'. st\<lparr>actions := actions st @
                        [(action_of_type TDeleteImage)\<lparr>a_image := Some image'\<rparr>]\<rparr>)
                 s (images s);
          s2 = s1\<lparr>images := []\<rparr>;
          s3 = s2\<lparr>actions := []\<rparr>;
          s4 = s3\<lparr>redoActions := []\<rparr>
      in s4\<lparr>selectedImage := None\<rparr>)"

section \<open>Handles of an image\<close>





section \<open>Transformations of the selected image\<close>

definition resizeSelectedImage :: "canvas \<Rightarrow> jsnum \<Rightarrow> jsnum \<Rightarrow> component \<Rightarrow> component" where
  "resizeSelectedImage cv x y s =
     (case selectedImage s of
        None \<Rightarrow> s
      | Some r \<Rightarrow>
          (case heap s r of
             None \<Rightarrow> s
           | Some sel \<Rightarrow>
               (let oldState = no_fields\<lparr>p_width := Some (i_width sel), p_height := Some (i_height sel)\<rparr>;
                    newWidth = x * canvas_width cv - i_x sel;
                    aspectRatio = i_width sel / i_height sel;
                    newHeight = newWidth / aspectRatio
                in if newWidth > Fin 20 \<and> newHeight > Fin 20
                   then s\<lparr>heap := (heap s)(r \<mapsto> sel\<lparr>i_width := newWidth, i_height := newHeight\<rparr>),
                          actions := actions s @
                            [(action_of_type TResizeImage)\<lparr>
                               a_image := Some r,
                               a_oldState := Some oldState,
                               a_newState := Some (no_fields\<lparr>p_width := Some newWidth,
                                                              p_height := Some newHeight\<rparr>)\<rparr>],
                          redoActions := []\<rparr>
                   else s)))"

definition rotateSelectedImage :: "canvas \<Rightarrow> jsnum \<Rightarrow> jsnum \<Rightarrow> component \<Rightarrow> component" where
  "rotateSelectedImage cv x y s =
     (case selectedImage s of
        None \<Rightarrow> s
      | Some r \<Rightarrow>
          (case heap s r of
             None \<Rightarrow> s
           | Some sel \<Rightarrow>
               (let centerX = i_x sel + i_width sel / Fin 2;
                    centerY = i_y sel + i_height sel / Fin 2;
                    oldRotation = i_rotation sel;
                    angle = Math_atan2 (y * canvas_height cv - centerY) (x * canvas_width cv - centerX);
                    newRotation = angle * (Fin 180 / Math_PI)
                in s\<lparr>heap := (heap s)(r \<mapsto> sel\<lparr>i_rotation := newRotation\<rparr>),
                      actions := actions s @
                        [(action_of_type TRotateImage)\<lparr>
                           a_image := Some r,
                           a_oldState := Some (no_fields\<lparr>p_rotation := Some oldRotation\<rparr>),
                           a_newState := Some (no_fields\<lparr>p_rotation := Some newRotation\<rparr>)\<rparr>],
                      redoActions := []\<rparr>)))"

definition flipImage :: "bool \<Rightarrow> component \<Rightarrow> component" where
  "flipImage horizontal s =
     (case selectedImage s of
        None \<Rightarrow> s
      | Some r \<Rightarrow>
          (case heap s r of
             None \<Rightarrow> s
           | Some sel \<Rightarrow>
               (let oldState = no_fields\<lparr>p_width := Some (i_width sel), p_height := Some (i_height sel)\<rparr>;
                    sel' = (if horizontal then sel\<lparr>i_width := - i_width sel\<rparr>
                            else sel\<lparr>i_height := - i_height sel\<rparr>)
                in s\<lparr>heap := (heap s)(r \<mapsto> sel'),
                      actions := actions s @
                        [(action_of_type TResizeImage)\<lparr>
                           a_image := Some r,
                           a_oldState := Some oldState,
                           a_newState := Some (no_fields\<lparr>p_width := Some (i_width sel'),
                                                          p_height := Some (i_height sel')\<rparr>)\<rparr>],
                      redoActions := []\<rparr>)))"

definition duplicateImage :: "component \<Rightarrow> component" where
  "duplicateImage s =
     (case selectedImage s of
        None \<Rightarrow> s
      | Some r \<Rightarrow>
          (case heap s r of
             None \<Rightarrow> s
           | Some sel \<Rightarrow>
               (let newImage = sel\<lparr>i_x := i_x sel + Fin 20, i_y := i_y sel + Fin 20\<rparr>;
                    n = nextRef s
                in s\<lparr>heap := (heap s)(n \<mapsto> newImage),
                      nextRef := Suc n,
                      images := images s @ [n],
                      actions := actions s @ [(action_of_type TAddImage)\<lparr>a_image := Some n\<rparr>],
                      redoActions := []\<rparr>)))"

text \<open>
  For the snapshots of an action: a snapshot that has the width and the height and no other
  field; the fields of an image other than its width and height; the action that a resize
  or a flip of the image \<open>r\<close> pushes, from the size \<open>(w, h)\<close> to the size \<open>(w', h')\<close>.
\<close>

definition only_width_height :: "PartialImageElement \<Rightarrow> bool" where
  "only_width_height p =
     (p_img p = None \<and> p_x p = None \<and> p_y p = None \<and> p_rotation p = None
      \<and> p_width p \<noteq> None \<and> p_height p \<noteq> None)"

definition placement :: "ImageElement \<Rightarrow> HTMLImageElement \<times> jsnum \<times> jsnum \<times> jsnum" where
  "placement i = (i_img i, i_x i, i_y i, i_rotation i)"

definition size_action :: "ref \<Rightarrow> jsnum \<Rightarrow> jsnum \<Rightarrow> jsnum \<Rightarrow> jsnum \<Rightarrow> DrawAction" where
  "size_action r w h w' h' =
     (action_of_type TResizeImage)\<lparr>
        a_image := Some r,
        a_oldState := Some (no_fields\<lparr>p_width := Some w, p_height := Some h\<rparr>),
        a_newState := Some (no_fields\<lparr>p_width := Some w', p_height := Some h'\<rparr>)\<rparr>"

section \<open>Edits\<close>






section \<open>Example states\<close>

definition ex_img :: HTMLImageElement where
  "ex_img = \<lparr>el_id = 0, el_width = 100, el_height = 100\<rparr>"

definition ex_canvas :: canvas where
  "ex_canvas = \<lparr>c_width = 1000, c_height = 500\<rparr>"

text \<open>One uploaded image of 100 by 100 pixels, selected.\<close>

definition one_selected :: component where
  "one_selected = (handleImageUpload ex_img initial)\<lparr>selectedImage := Some 0\<rparr>"




text \<open>The action pushed by the horizontal flip of the image of \<open>one_selected\<close>.\<close>

definition ex_flip :: DrawAction where
  "ex_flip = size_action 0 (Fin 100) (Fin 100) (Fin (- 100)) (Fin 100)"



text \<open>A path of three points.\<close>

definition ex_path :: "point list" where
  "ex_path = [(Fin 0, Fin 0), (Fin 1, Fin 1), (Fin 2, Fin 0)]"

declare bezierSamples.simps [simp del] smoothLoop.simps [simp del] bits.simps [simp del]

section \<open>Clearing the canvas, then undoing\<close>

text \<open>
  C1 (the code does otherwise). The specification: after \<open>clearCanvas\<close> on a state with an image,
  one \<open>undo\<close> puts one of the images back. In the code \<open>clearCanvas\<close> pushes a delete
  action per image and then empties the list of actions, so the pushed actions are lost:
  in every state the list of actions is empty after \<open>clearCanvas\<close>, \<open>undo\<close> changes
  nothing and the list of images stays empty.
\<close>

theorem clearCanvas_undo_restores_nothing:
  "actions (clearCanvas s) = [] \<and> images (clearCanvas s) = []
   \<and> undo (clearCanvas s) = clearCanvas s \<and> images (undo (clearCanvas s)) = []"
  by (simp add: clearCanvas_def undo_def Let_def)

section \<open>The redo stack after a commit\<close>

text \<open>
  C3 (the code does otherwise). The specification: every commit empties the redo stack. The release
  of the pointer in line mode pushes the stroke and leaves \<open>redoActions\<close> as it was, where
  \<open>stopDrawing\<close> and the edits of images empty it; a \<open>redo\<close> after the line then brings
  back the action \<open>a\<close> that had been undone before.
\<close>

theorem line_commit_keeps_redo:
  "redoActions (onMouseUp rect clientX clientY (s\<lparr>isLineDrawingMode := True, lineStartPoint := Some p\<rparr>))
     = redoActions s
   \<and> last (actions (redo (onMouseUp rect clientX clientY
        (s\<lparr>isLineDrawingMode := True, lineStartPoint := Some p, redoActions := [a]\<rparr>)))) = a"
  by (simp add: onMouseUp_def redo_def Let_def assign_at_def split: action_type.splits option.splits)

text \<open>The other commits do empty the redo stack.\<close>

lemma stopDrawing_clears_redo:
  "isDrawing s \<Longrightarrow> length (currentPath s) > 1 \<Longrightarrow> redoActions (stopDrawing s) = []"
  by (simp add: stopDrawing_def Let_def)

lemma image_edits_clear_redo:
  "actions (deleteImage r s) \<noteq> actions s \<Longrightarrow> redoActions (deleteImage r s) = []"
  "actions (resizeSelectedImage cv x y s) \<noteq> actions s \<Longrightarrow> redoActions (resizeSelectedImage cv x y s) = []"
  "actions (rotateSelectedImage cv x y s) \<noteq> actions s \<Longrightarrow> redoActions (rotateSelectedImage cv x y s) = []"
  "actions (flipImage h s) \<noteq> actions s \<Longrightarrow> redoActions (flipImage h s) = []"
  "actions (duplicateImage s) \<noteq> actions s \<Longrightarrow> redoActions (duplicateImage s) = []"
  by (auto simp add: deleteImage_def resizeSelectedImage_def rotateSelectedImage_def flipImage_def
      duplicateImage_def Let_def split: option.splits if_splits)

section \<open>Uploading an image\<close>

text \<open>
  C4 (the code does otherwise). The specification: an uploaded image is pushed into the list of
  images and an \<open>addImage\<close> action is pushed onto the undo stack. The callback of
  \<open>handleImageUpload\<close> pushes the image and records no action: both stacks are unchanged.
  (\<open>duplicateImage\<close> does push the action.)
\<close>

theorem upload_records_no_action:
  "images (handleImageUpload img s) = images s @ [nextRef s]
   \<and> actions (handleImageUpload img s) = actions s
   \<and> redoActions (handleImageUpload img s) = redoActions s"
  by (simp add: handleImageUpload_def Let_def)

section \<open>Snapping\<close>

lemma js_rem_360: "0 \<le> a \<Longrightarrow> a < 360 \<Longrightarrow> js_rem (Fin (a + 360)) (Fin 360) = Fin a"
proof -
  assume a: "0 \<le> a" "a < 360"
  have "\<lfloor>(a + 360) / 360\<rfloor> = 1"
    using a by (intro floor_unique) auto
  then show ?thesis using a by (simp add: trunc_def)
qed

text \<open>The angle whose tangent is 1/20 lies between 2 and 5 degrees.\<close>

lemma arctan_20th_upper: "arctan (1 / 20) < pi / 48"
proof -
  let ?t = "arctan (1 / 20 :: real)"
  have d1: "2 * ?t = arctan (40 / 399)"
    using arctan_double [of "1 / 20"] by (simp add: power2_eq_square)
  have "arctan (40 / 399 :: real) < arctan (1 / 9)"
    by (simp add: arctan_less_iff)
  with d1 have b2: "2 * ?t < arctan (1 / 9)" by simp
  have d2: "2 * arctan (1 / 9 :: real) = arctan (9 / 40)"
    using arctan_double [of "1 / 9"] by (simp add: power2_eq_square)
  have "arctan (9 / 40 :: real) < arctan (1 / 4)"
    by (simp add: arctan_less_iff)
  with d2 b2 have b4: "4 * ?t < arctan (1 / 4)" by simp
  have d3: "2 * arctan (1 / 4 :: real) = arctan (8 / 15)"
    using arctan_double [of "1 / 4"] by (simp add: power2_eq_square)
  with b4 have b8: "8 * ?t < arctan (8 / 15)" by simp
  have s: "arctan (8 / 15 :: real) + arctan (1 / 4) = arctan (47 / 52)"
    using arctan_add [of "8 / 15" "1 / 4"] by simp
  have "arctan (47 / 52 :: real) < arctan 1"
    by (simp add: arctan_less_iff)
  with s b4 b8 have "12 * ?t < pi / 4" by (simp add: arctan_one)
  then show ?thesis by simp
qed

lemma arctan_20th_lower: "20 / 401 \<le> arctan (1 / 20 :: real)"
proof -
  let ?t = "arctan (1 / 20 :: real)"
  have "sin (2 * ?t) = 2 * tan ?t / (1 + (tan ?t)^2)" by (rule sin_tan_half)
  then have s: "sin (2 * ?t) = 40 / 401" by (simp add: tan_arctan power2_eq_square)
  have "0 \<le> 2 * ?t" by simp
  then have "sin (2 * ?t) \<le> 2 * ?t" by (rule sin_x_le_x)
  with s show ?thesis by simp
qed

lemma angle_20th: "0 < arctan (1 / 20) * 180 / pi" "arctan (1 / 20) * 180 / pi < 5"
proof -
  show "0 < arctan (1 / 20) * 180 / pi" by simp
  have "arctan (1 / 20) * 180 < pi / 48 * 180"
    using arctan_20th_upper by simp
  also have "\<dots> < 5 * pi" by simp
  finally show "arctan (1 / 20) * 180 / pi < 5"
    by (simp add: pos_divide_less_eq)
qed

lemma angle_20: "45 < arctan 20 * 180 / pi" "arctan 20 * 180 / pi \<le> 88"
proof -
  have "arctan 1 < arctan (20 :: real)" by (simp add: arctan_less_iff)
  then have "pi / 4 * 180 < arctan 20 * 180" by (simp add: arctan_one)
  then show "45 < arctan 20 * 180 / pi" by (simp add: pos_less_divide_eq)
  have inv: "arctan (1 / 20) = pi / 2 - arctan (20 :: real)"
    using arctan_inverse [of "20 :: real"] by simp
  have "2 * pi \<le> 20 / 401 * 180" using pi_less_4 by simp
  also have "\<dots> \<le> arctan (1 / 20) * 180" using arctan_20th_lower by simp
  finally have "arctan 20 * 180 \<le> 88 * pi" using inv by simp
  then show "arctan 20 * 180 / pi \<le> 88" by (simp add: pos_divide_le_eq)
qed

lemmas snap_consts = HORIZONTAL_SNAP_THRESHOLD_def HORIZONTAL_SNAP_DISTANCE_THRESHOLD_def
  VERTICAL_SNAP_THRESHOLD_def VERTICAL_SNAP_DISTANCE_THRESHOLD_def

lemma snap_near_horizontal:
  "getSnappedEndPoint (Fin 0, Fin 0) (Fin (1 / 10), Fin (5 / 1000)) = (Fin (1 / 10), Fin 0)"
proof -
  have "Math_atan2 (Fin (5 / 1000) - Fin 0) (Fin (1 / 10) - Fin 0) * Fin 180 / Math_PI + Fin 360
        = Fin (arctan (1 / 20) * 180 / pi + 360)"
    by (simp add: minus_jsnum_def Math_PI_def)
  then have a: "js_rem (Math_atan2 (Fin (5 / 1000) - Fin 0) (Fin (1 / 10) - Fin 0) * Fin 180 / Math_PI + Fin 360)
           (Fin 360) = Fin (arctan (1 / 20) * 180 / pi)"
    using angle_20th js_rem_360 [of "arctan (1 / 20) * 180 / pi"] by (simp del: js_rem.simps)
  show ?thesis
    unfolding getSnappedEndPoint_def Let_def fst_conv snd_conv a
    using angle_20th by (simp add: minus_jsnum_def snap_consts)
qed

lemma snap_near_vertical:
  "getSnappedEndPoint (Fin 0, Fin 0) (Fin (5 / 1000), Fin (1 / 10)) = (Fin (5 / 1000), Fin (1 / 10))"
proof -
  have "Math_atan2 (Fin (1 / 10) - Fin 0) (Fin (5 / 1000) - Fin 0) * Fin 180 / Math_PI + Fin 360
        = Fin (arctan 20 * 180 / pi + 360)"
    by (simp add: minus_jsnum_def Math_PI_def)
  then have a: "js_rem (Math_atan2 (Fin (1 / 10) - Fin 0) (Fin (5 / 1000) - Fin 0) * Fin 180 / Math_PI + Fin 360)
           (Fin 360) = Fin (arctan 20 * 180 / pi)"
    using angle_20 js_rem_360 [of "arctan 20 * 180 / pi"] by (simp del: js_rem.simps)
  show ?thesis
    unfolding getSnappedEndPoint_def Let_def fst_conv snd_conv a
    using angle_20 by (simp add: minus_jsnum_def snap_consts)
qed

lemma snap_diagonal:
  "getSnappedEndPoint (Fin 0, Fin 0) (Fin (1 / 10), Fin (1 / 10)) = (Fin (1 / 10), Fin (1 / 10))"
proof -
  have "Math_atan2 (Fin (1 / 10) - Fin 0) (Fin (1 / 10) - Fin 0) * Fin 180 / Math_PI + Fin 360
        = Fin (45 + 360)"
    by (simp add: minus_jsnum_def Math_PI_def arctan_one)
  then have a: "js_rem (Math_atan2 (Fin (1 / 10) - Fin 0) (Fin (1 / 10) - Fin 0) * Fin 180 / Math_PI + Fin 360)
           (Fin 360) = Fin 45"
    using js_rem_360 [of 45] by (simp del: js_rem.simps)
  show ?thesis
    unfolding getSnappedEndPoint_def Let_def fst_conv snd_conv a
    by (simp add: minus_jsnum_def snap_consts)
qed

text \<open>
  C5, as the specification states it, fails in its second case: for the start \<open>(0, 0)\<close> and the
  candidate \<open>(0.005, 0.1)\<close> the result is not \<open>(0, 0.1)\<close>.
\<close>

theorem snap_vertical_case_not_snapped:
  "getSnappedEndPoint (Fin 0, Fin 0) (Fin (5 / 1000), Fin (1 / 10)) \<noteq> (Fin 0, Fin (1 / 10))"
  unfolding snap_near_vertical by simp

text \<open>
  C5 (amended). For the start \<open>(0, 0)\<close>: the candidate \<open>(0.1, 0.005)\<close> is snapped to
  \<open>(0.1, 0)\<close>; the candidate \<open>(0.005, 0.1)\<close> is returned unchanged, its angle of about 87.1
  degrees being more than the 2 degrees of the vertical tolerance away from 90; the candidate
  \<open>(0.1, 0.1)\<close> is returned unchanged.
\<close>

theorem snap_three_cases:
  "getSnappedEndPoint (Fin 0, Fin 0) (Fin (1 / 10), Fin (5 / 1000)) = (Fin (1 / 10), Fin 0)
   \<and> getSnappedEndPoint (Fin 0, Fin 0) (Fin (5 / 1000), Fin (1 / 10)) = (Fin (5 / 1000), Fin (1 / 10))
   \<and> getSnappedEndPoint (Fin 0, Fin 0) (Fin (1 / 10), Fin (1 / 10)) = (Fin (1 / 10), Fin (1 / 10))"
  using snap_near_horizontal snap_near_vertical snap_diagonal by simp

section \<open>Rejected resizing\<close>

lemma not_gt_if_le: "(a :: jsnum) \<le> Fin b \<Longrightarrow> \<not> Fin b < a"
  by (cases a) simp_all

text \<open>
  C6. With an image selected, let the new width be the pointer's device x minus the left
  edge of the image and the new height the new width divided by the aspect ratio. If one of
  the two is at most 20, \<open>resizeSelectedImage\<close> returns the state as it was: no field of the
  image changes and no action is pushed.
\<close>

theorem resize_rejected:
  assumes "selectedImage s = Some r" and "heap s r = Some sel"
    and "newWidth = x * canvas_width cv - i_x sel"
    and "newHeight = newWidth / (i_width sel / i_height sel)"
    and "newWidth \<le> Fin 20 \<or> newHeight \<le> Fin 20"
  shows "resizeSelectedImage cv x y s = s"
  using assms not_gt_if_le [of newWidth 20] not_gt_if_le [of newHeight 20]
  by (auto simp add: resizeSelectedImage_def Let_def)

theorem resize_rejected_witness:
  "selectedImage one_selected = Some 0
   \<and> Fin (15 / 1000) * canvas_width ex_canvas - Fin 0 = Fin 15
   \<and> Fin 15 \<le> Fin 20
   \<and> resizeSelectedImage ex_canvas (Fin (15 / 1000)) (Fin 0) one_selected = one_selected"
  using resize_rejected [of one_selected 0
      "\<lparr>i_img = ex_img, i_x = Fin 0, i_y = Fin 0, i_width = Fin 100, i_height = Fin 100, i_rotation = Fin 0\<rparr>"
      "Fin 15" "Fin (15 / 1000)" ex_canvas "Fin 15" "Fin 0"]
  by (simp add: one_selected_def handleImageUpload_def initial_def ex_img_def ex_canvas_def
      canvas_width_def minus_jsnum_def Let_def)

section \<open>Capturing a point\<close>

text \<open>
  C8, as the specification states it, fails: with a rectangle of width and height zero a point is
  stored all the same, and its coordinates are NaN and Infinity.
\<close>

theorem capture_zero_viewport_stores_nan:
  "currentPath (capturePoint (Some \<lparr>r_left = 0, r_top = 0, r_width = 0, r_height = 0\<rparr>) 0 5 initial)
   = [(NaN, PInf)]"
  by (simp add: capturePoint_def initial_def minus_jsnum_def)

text \<open>
  C8 (amended). \<open>capturePoint\<close> checks only that the canvas exists. With a canvas it
  appends the point of \<open>getCanvasCoordinates\<close> to the current path, whatever the size of the
  rectangle; with a width of zero the stored x is NaN when the pointer is on the left edge
  and an infinity otherwise, and likewise for a height of zero and y.
\<close>

theorem capturePoint_always_stores:
  "currentPath (capturePoint (Some rect) clientX clientY s)
     = currentPath s @ [getCanvasCoordinates rect clientX clientY]
   \<and> capturePoint None clientX clientY s = s
   \<and> fst (getCanvasCoordinates (rect\<lparr>r_width := 0\<rparr>) clientX clientY)
       = (if clientX = r_left rect then NaN else if clientX < r_left rect then NInf else PInf)
   \<and> snd (getCanvasCoordinates (rect\<lparr>r_height := 0\<rparr>) clientX clientY)
       = (if clientY = r_top rect then NaN else if clientY < r_top rect then NInf else PInf)"
  by (simp add: capturePoint_def getCanvasCoordinates_def Let_def minus_jsnum_def)

section \<open>The smoothed path\<close>

text \<open>The inner loop, started at the parameter \<open>k / 10\<close>, pushes the samples from \<open>k\<close> to 10.\<close>

lemma bezierSamples_unroll:
  "k \<le> 11 \<Longrightarrow> bezierSamples (real k / 10) c1 p c2 acc
     = acc @ map (\<lambda>j. bezierPoint c1 p c2 (real j / 10)) [k..<11]"
proof (induction "11 - k" arbitrary: k acc)
  case 0
  then have "k = 11" by simp
  then show ?case by (subst bezierSamples.simps) simp
next
  case (Suc n)
  then have k: "k < 11" and n: "n = 11 - Suc k" by simp_all
  have t: "real k / 10 + 1 / 10 = real (Suc k) / 10" by simp
  have le: "real k / 10 \<le> 1" using k by simp
  have "bezierSamples (real k / 10) c1 p c2 acc
        = bezierSamples (real (Suc k) / 10) c1 p c2 (acc @ [bezierPoint c1 p c2 (real k / 10)])"
    by (subst bezierSamples.simps) (simp only: le t if_True Let_def bezierPoint_def)
  also have "\<dots> = (acc @ [bezierPoint c1 p c2 (real k / 10)])
        @ map (\<lambda>j. bezierPoint c1 p c2 (real j / 10)) [Suc k..<11]"
    using Suc.hyps(1) [OF n] k by simp
  also have "\<dots> = acc @ map (\<lambda>j. bezierPoint c1 p c2 (real j / 10)) [k..<11]"
    using k by (simp add: upt_conv_Cons)
  finally show ?case .
qed

lemma bezierSamples_0:
  "bezierSamples 0 c1 p c2 acc = acc @ map (\<lambda>j. bezierPoint c1 p c2 (real j / 10)) [0..<11]"
  using bezierSamples_unroll [of 0 c1 p c2 acc] by simp

lemma smoothLoop_unroll:
  "smoothLoop i ps acc = acc @ concat (map (segmentSamples ps) [i..<length ps - 1])"
proof (induction "length ps - 1 - i" arbitrary: i acc)
  case 0
  then have "\<not> i < length ps - 1" by simp
  then show ?case by (subst smoothLoop.simps) simp
next
  case (Suc n)
  then have i: "i < length ps - 1" and n: "n = length ps - 1 - Suc i" by simp_all
  have "smoothLoop i ps acc = smoothLoop (Suc i) ps (acc @ segmentSamples ps i)"
    using i by (subst smoothLoop.simps) (simp add: Let_def bezierSamples_0 segmentSamples_def ctrlPoint_def)
  also have "\<dots> = (acc @ segmentSamples ps i) @ concat (map (segmentSamples ps) [Suc i..<length ps - 1])"
    by (rule Suc.hyps(1) [OF n])
  also have "\<dots> = acc @ concat (map (segmentSamples ps) [i..<length ps - 1])"
    using i by (simp add: upt_conv_Cons)
  finally show ?case .
qed

text \<open>
  C7. \<open>createSmoothPath\<close> returns a path of fewer than three points as it is. On three
  points or more the result is the first point, then for each interior point, in order,
  the eleven samples of the quadratic curve at the parameters 0, 0.1, ..., 1 (from the
  control point before it to the control point after it), then the last point; its length
  is 11 times the number of interior points, plus 2. On every path that is not empty the
  first and the last point of the result are those of the input. The result is a function
  of the path alone.
\<close>

theorem createSmoothPath_structure:
  "(length ps < 3 \<longrightarrow> createSmoothPath ps = ps)
   \<and> (3 \<le> length ps \<longrightarrow>
        createSmoothPath ps = hd ps # concat (map (segmentSamples ps) [1..<length ps - 1]) @ [last ps]
        \<and> length (createSmoothPath ps) = 11 * (length ps - 2) + 2)
   \<and> (ps \<noteq> [] \<longrightarrow> hd (createSmoothPath ps) = hd ps \<and> last (createSmoothPath ps) = last ps)"
proof -
  have small: "length ps < 3 \<Longrightarrow> createSmoothPath ps = ps"
    by (simp add: createSmoothPath_def)
  have big: "createSmoothPath ps = hd ps # concat (map (segmentSamples ps) [1..<length ps - 1]) @ [last ps]"
    if "3 \<le> length ps"
  proof -
    from that have ne: "ps \<noteq> []" by auto
    then have "ps ! 0 = hd ps" "ps ! (length ps - 1) = last ps"
      by (simp_all add: hd_conv_nth last_conv_nth)
    with that show ?thesis
      by (simp add: createSmoothPath_def smoothLoop_unroll)
  qed
  have len: "length (concat (map (segmentSamples ps) xs)) = 11 * length xs" for xs
    by (induction xs) (simp_all add: segmentSamples_def)
  have biglen: "length (createSmoothPath ps) = 11 * (length ps - 2) + 2" if "3 \<le> length ps"
    using big [OF that] that by (simp add: len)
  have ends: "hd (createSmoothPath ps) = hd ps \<and> last (createSmoothPath ps) = last ps"
    if "ps \<noteq> []"
  proof (cases "length ps < 3")
    case True
    then show ?thesis by (simp add: small)
  next
    case False
    then have "3 \<le> length ps" by simp
    then show ?thesis by (simp add: big)
  qed
  show ?thesis using small big biglen ends by blast
qed

theorem createSmoothPath_structure_witness:
  "length ex_path = 3
   \<and> length (createSmoothPath ex_path) = 13
   \<and> hd (createSmoothPath ex_path) = (Fin 0, Fin 0)
   \<and> last (createSmoothPath ex_path) = (Fin 2, Fin 0)
   \<and> createSmoothPath ex_path ! 6 = (Fin 1, Fin (3 / 4))
   \<and> createSmoothPath [(Fin 0, Fin 0), (Fin 1, Fin 1)] = [(Fin 0, Fin 0), (Fin 1, Fin 1)]"
  using createSmoothPath_structure [of ex_path]
    createSmoothPath_structure [of "[(Fin 0, Fin 0), (Fin 1, Fin 1)]"]
  by (simp add: ex_path_def segmentSamples_def bezierPoint_def ctrlPoint_def minus_jsnum_def
      upt_conv_Cons power2_eq_square)

text \<open>
  Under the rounding of binary64 the inner loop makes eleven turns as well, with enough
  fuel; the last value of the counter is then \<open>1 - 2 ^ -53\<close> in place of 1.
\<close>

lemma bits_between: "2 ^ k \<le> n \<Longrightarrow> n < 2 ^ Suc k \<Longrightarrow> bits n = Suc k"
proof (induction k arbitrary: n)
  case 0
  then have "n = 1" by simp
  then show ?case by (simp add: bits.simps)
next
  case (Suc k)
  then have "2 ^ k \<le> n div 2" "n div 2 < 2 ^ Suc k" by auto
  then have "bits (n div 2) = Suc k" by (rule Suc.IH)
  moreover have "n \<noteq> 0" using Suc.prems by auto
  ultimately show ?case by (subst bits.simps) simp
qed

lemma steps64:
  "round53 (0 + tenth64) = 115292150460684704"
  "round53 (115292150460684704 + tenth64) = 230584300921369408"
  "round53 (230584300921369408 + tenth64) = 345876451382054144"
  "round53 (345876451382054144 + tenth64) = 461168601842738816"
  "round53 (461168601842738816 + tenth64) = 576460752303423488"
  "round53 (576460752303423488 + tenth64) = 691752902764108160"
  "round53 (691752902764108160 + tenth64) = 807045053224792832"
  "round53 (807045053224792832 + tenth64) = 922337203685477504"
  "round53 (922337203685477504 + tenth64) = 1037629354146162176"
  "round53 (1037629354146162176 + tenth64) = 1152921504606846848"
  "round53 (1152921504606846848 + tenth64) = 1268213655067531520"
proof -
  have b: "bits (0 + tenth64) = 57"
    using bits_between [of 56 "0 + tenth64"] by (simp add: tenth64_def)
  show "round53 (0 + tenth64) = 115292150460684704"
    unfolding round53_def b by (simp add: tenth64_def Let_def)
  have b: "bits (115292150460684704 + tenth64) = 58"
    using bits_between [of 57 "115292150460684704 + tenth64"] by (simp add: tenth64_def)
  show "round53 (115292150460684704 + tenth64) = 230584300921369408"
    unfolding round53_def b by (simp add: tenth64_def Let_def)
  have b: "bits (230584300921369408 + tenth64) = 59"
    using bits_between [of 58 "230584300921369408 + tenth64"] by (simp add: tenth64_def)
  show "round53 (230584300921369408 + tenth64) = 345876451382054144"
    unfolding round53_def b by (simp add: tenth64_def Let_def)
  have b: "bits (345876451382054144 + tenth64) = 59"
    using bits_between [of 58 "345876451382054144 + tenth64"] by (simp add: tenth64_def)
  show "round53 (345876451382054144 + tenth64) = 461168601842738816"
    unfolding round53_def b by (simp add: tenth64_def Let_def)
  have b: "bits (461168601842738816 + tenth64) = 60"
    using bits_between [of 59 "461168601842738816 + tenth64"] by (simp add: tenth64_def)
  show "round53 (461168601842738816 + tenth64) = 576460752303423488"
    unfolding round53_def b by (simp add: tenth64_def Let_def)
  have b: "bits (576460752303423488 + tenth64) = 60"
    using bits_between [of 59 "576460752303423488 + tenth64"] by (simp add: tenth64_def)
  show "round53 (576460752303423488 + tenth64) = 691752902764108160"
    unfolding round53_def b by (simp add: tenth64_def Let_def)
  have b: "bits (691752902764108160 + tenth64) = 60"
    using bits_between [of 59 "691752902764108160 + tenth64"] by (simp add: tenth64_def)
  show "round53 (691752902764108160 + tenth64) = 807045053224792832"
    unfolding round53_def b by (simp add: tenth64_def Let_def)
  have b: "bits (807045053224792832 + tenth64) = 60"
    using bits_between [of 59 "807045053224792832 + tenth64"] by (simp add: tenth64_def)
  show "round53 (807045053224792832 + tenth64) = 922337203685477504"
    unfolding round53_def b by (simp add: tenth64_def Let_def)
  have b: "bits (922337203685477504 + tenth64) = 60"
    using bits_between [of 59 "922337203685477504 + tenth64"] by (simp add: tenth64_def)
  show "round53 (922337203685477504 + tenth64) = 1037629354146162176"
    unfolding round53_def b by (simp add: tenth64_def Let_def)
  have b: "bits (1037629354146162176 + tenth64) = 60"
    using bits_between [of 59 "1037629354146162176 + tenth64"] by (simp add: tenth64_def)
  show "round53 (1037629354146162176 + tenth64) = 1152921504606846848"
    unfolding round53_def b by (simp add: tenth64_def Let_def)
  have b: "bits (1152921504606846848 + tenth64) = 61"
    using bits_between [of 60 "1152921504606846848 + tenth64"] by (simp add: tenth64_def)
  show "round53 (1152921504606846848 + tenth64) = 1268213655067531520"
    unfolding round53_def b by (simp add: tenth64_def Let_def)
qed

lemma turns64_eleven:
  "turns64 (12 + fuel) 0 =
     [0,
      115292150460684704,
      230584300921369408,
      345876451382054144,
      461168601842738816,
      576460752303423488,
      691752902764108160,
      807045053224792832,
      922337203685477504,
      1037629354146162176,
      1152921504606846848]
   \<and> last (turns64 (12 + fuel) 0) = 2 ^ 60 - 2 ^ 7"
proof -
  have f: "12 + fuel = Suc (Suc (Suc (Suc (Suc (Suc (Suc (Suc (Suc (Suc (Suc (Suc fuel)))))))))))"
    by simp
  show ?thesis
    unfolding f turns64.simps steps64 by simp
qed

section \<open>The regions of the handles\<close>







section \<open>Undoing and redoing a resize or a flip\<close>

lemma resize_pushes_size_action:
  "actions (resizeSelectedImage cv x y s) = actions s @ [a] \<Longrightarrow> \<exists>r w h w' h'. a = size_action r w h w' h'"
  unfolding size_action_def
  by (auto simp add: resizeSelectedImage_def Let_def split: option.splits if_splits intro!: exI)

lemma flip_pushes_size_action:
  "actions (flipImage hz s) = actions s @ [a] \<Longrightarrow> \<exists>r w h w' h'. a = size_action r w h w' h'"
  unfolding size_action_def
  by (auto simp add: flipImage_def Let_def split: option.splits if_splits intro!: exI)

lemma assign_size_placement:
  "only_width_height p \<Longrightarrow> map_option placement (heap (assign_at r p t) q) = map_option placement (heap t q)"
  by (auto simp add: assign_at_def Object_assign_def only_width_height_def placement_def
      split: option.splits)

lemma size_action_only:
  "only_width_height (no_fields\<lparr>p_width := Some w, p_height := Some h\<rparr>)"
  by (simp add: only_width_height_def no_fields_def)

lemma undo_size_action_frame:
  "actions t \<noteq> [] \<Longrightarrow> last (actions t) = size_action r w h w' h' \<Longrightarrow>
   map_option placement (heap (undo t) q) = map_option placement (heap t q)"
  using assign_size_placement [OF size_action_only [where w = w and h = h], of r "t\<lparr>actions := butlast (actions t),
      redoActions := redoActions t @ [size_action r w h w' h']\<rparr>" q]
  by (simp add: undo_def Let_def size_action_def action_of_type_def)

lemma redo_size_action_frame:
  "redoActions t \<noteq> [] \<Longrightarrow> last (redoActions t) = size_action r w h w' h' \<Longrightarrow>
   map_option placement (heap (redo t) q) = map_option placement (heap t q)"
  using assign_size_placement [OF size_action_only [where w = w' and h = h'], of r "t\<lparr>redoActions := butlast (redoActions t),
      actions := actions t @ [size_action r w h w' h']\<rparr>" q]
  by (simp add: redo_def Let_def size_action_def action_of_type_def)

text \<open>
  C10. If \<open>resizeSelectedImage\<close> or \<open>flipImage\<close> pushes the action \<open>a\<close>, then the old and
  the new snapshot of \<open>a\<close> hold the width and the height and nothing else; and in every
  state whose undo stack (redo stack) has \<open>a\<close> on top, \<open>undo\<close> (\<open>redo\<close>) leaves the bitmap,
  the position and the rotation of every image as they were.
\<close>

theorem size_commands_keep_placement:
  assumes "actions (resizeSelectedImage cv x y s) = actions s @ [a]
           \<or> actions (flipImage horizontal s) = actions s @ [a]"
  shows "(\<exists>old new. a_oldState a = Some old \<and> a_newState a = Some new
            \<and> only_width_height old \<and> only_width_height new)
       \<and> (\<forall>t q. actions t \<noteq> [] \<and> last (actions t) = a \<longrightarrow>
             map_option placement (heap (undo t) q) = map_option placement (heap t q))
       \<and> (\<forall>t q. redoActions t \<noteq> [] \<and> last (redoActions t) = a \<longrightarrow>
             map_option placement (heap (redo t) q) = map_option placement (heap t q))"
proof -
  from assms obtain r w h w' h' where a: "a = size_action r w h w' h'"
    using resize_pushes_size_action flip_pushes_size_action by blast
  have "a_oldState a = Some (no_fields\<lparr>p_width := Some w, p_height := Some h\<rparr>)"
    and "a_newState a = Some (no_fields\<lparr>p_width := Some w', p_height := Some h'\<rparr>)"
    by (simp_all add: a size_action_def)
  then have snap: "\<exists>old new. a_oldState a = Some old \<and> a_newState a = Some new
            \<and> only_width_height old \<and> only_width_height new"
    using size_action_only by simp
  show ?thesis
    using snap undo_size_action_frame redo_size_action_frame unfolding a by blast
qed

theorem size_commands_keep_placement_witness:
  "actions (flipImage True one_selected) = actions one_selected @ [ex_flip]
   \<and> map_option placement (heap (undo (flipImage True one_selected)) 0) = Some (ex_img, Fin 0, Fin 0, Fin 0)
   \<and> map_option i_width (heap (flipImage True one_selected) 0) = Some (Fin (- 100))
   \<and> map_option i_width (heap (undo (flipImage True one_selected)) 0) = Some (Fin 100)"
proof -
  have p: "actions (flipImage True one_selected) = actions one_selected @ [ex_flip]"
    by (simp add: flipImage_def one_selected_def handleImageUpload_def initial_def ex_flip_def
        size_action_def ex_img_def Let_def)
  have l: "actions (flipImage True one_selected) \<noteq> [] \<and> last (actions (flipImage True one_selected)) = ex_flip"
    by (simp add: p)
  have "map_option placement (heap (undo (flipImage True one_selected)) 0)
        = map_option placement (heap (flipImage True one_selected) 0)"
    using size_commands_keep_placement [of ex_canvas "Fin 0" "Fin 0" one_selected ex_flip True] p l
    by blast
  moreover have "map_option placement (heap (flipImage True one_selected) 0) = Some (ex_img, Fin 0, Fin 0, Fin 0)"
    by (simp add: flipImage_def one_selected_def handleImageUpload_def initial_def placement_def Let_def)
  moreover have "map_option i_width (heap (flipImage True one_selected) 0) = Some (Fin (- 100))"
    by (simp add: flipImage_def one_selected_def handleImageUpload_def initial_def ex_img_def Let_def)
  moreover have "map_option i_width (heap (undo (flipImage True one_selected)) 0) = Some (Fin 100)"
    by (simp add: undo_def flipImage_def one_selected_def handleImageUpload_def initial_def ex_img_def
        assign_at_def Object_assign_def action_of_type_def no_fields_def Let_def)
  ultimately show ?thesis using p by simp
qed


section \<open>Edits followed by as many undos\<close>





lemma assign_at_keeps [simp]:
  "images (assign_at r p s) = images s"
  "actions (assign_at r p s) = actions s"
  "redoActions (assign_at r p s) = redoActions s"
  by (simp_all add: assign_at_def split: option.splits)

























end
